theory Spec2Isabelle
  imports Main
begin

section \<open>JavaScript values\<close>

text \<open>
  The arguments of a tool call arrive as a parsed JSON object, and the server copies them
  into a new object without looking at their types. A value is therefore any JSON value,
  or \<open>undefined\<close>, which is what reading an absent property gives. Numbers are integers,
  as the tool's schema declares every numeric field; the server only ever asks of a
  number whether it is zero.
\<close>

datatype jsval =
    JUndefined
  | JNull
  | JBool bool
  | JNum int
  | JStr string
  | JArr "jsval list"
  | JObj "(string \<times> jsval) list"

type_synonym js_object = "(string \<times> jsval) list"

text \<open>JavaScript's ToBoolean: what \<open>!v\<close> and \<open>v || d\<close> test.\<close>

fun truthy :: "jsval \<Rightarrow> bool" where
  "truthy JUndefined = False"
| "truthy JNull = False"
| "truthy (JBool b) = b"
| "truthy (JNum n) = (n \<noteq> 0)"
| "truthy (JStr s) = (s \<noteq> [])"
| "truthy (JArr _) = True"
| "truthy (JObj _) = True"

text \<open>\<open>a || d\<close>\<close>

definition js_or :: "jsval \<Rightarrow> jsval \<Rightarrow> jsval" where
  "js_or a d = (if truthy a then a else d)"

text \<open>
  \<open>args.k\<close> on the argument object: the value stored under \<open>k\<close>, or \<open>undefined\<close>
  when the key is absent.
\<close>

definition field :: "(string \<rightharpoonup> jsval) \<Rightarrow> string \<Rightarrow> jsval" where
  "field args k = (case args k of None \<Rightarrow> JUndefined | Some v \<Rightarrow> v)"

text \<open>The keys of an object literal, in the order it lists them.\<close>

definition keys :: "js_object \<Rightarrow> string list" where
  "keys obj = map fst obj"

section \<open>Startup credential check\<close>

text \<open>
  The module's top level (lines 17 to 28) reads \<open>process.env.OPENAI_API_KEY\<close>, which is
  a string or \<open>undefined\<close>. \<open>!key\<close> holds for \<open>undefined\<close> and for the empty string.
  The result is what was written to standard error and whether the process went on to
  construct the server and connect its transport (lines 279 and 280) or left through
  \<open>process.exit(1)\<close>.
\<close>

datatype startup = Exit int | Serving

definition startsWith :: "string \<Rightarrow> string \<Rightarrow> bool" where
  "startsWith s p = (take (length p) s = p)"

definition key_missing :: "string option \<Rightarrow> bool" where
  "key_missing env = (case env of None \<Rightarrow> True | Some k \<Rightarrow> k = [])"

definition startup_check :: "string option \<Rightarrow> string list \<times> startup" where
  \<open>startup_check env =
     (if key_missing env then
        ([''ERROR: OPENAI_API_KEY environment variable is required'',
          ''Please provide your OpenAI API key in the .env file or in the MCP settings configuration.''],
         Exit 1)
      else if \<not> startsWith (the env) ''sk-'' then
        ([''WARNING: The OPENAI_API_KEY does not appear to be in the expected format.'',
          ''OpenAI API keys typically start with "sk-".''],
         Serving)
      else ([], Serving))\<close>

section \<open>The tool descriptor\<close>

record InputSchema =
  schema_type :: string
  properties :: "(string \<times> js_object) list"
  required :: "string list"

record Tool =
  name :: string
  description :: string
  inputSchema :: InputSchema

record ListToolsResult =
  tools :: "Tool list"

definition generate_image_properties :: "(string \<times> js_object) list" where
  "generate_image_properties =
    [(''prompt'',
        [(''type'', JStr ''string''),
         (''description'', JStr ''A text description of the desired image. Max length: 32000 chars (gpt-image-1), 4000 chars (dall-e-3), 1000 chars (dall-e-2)'')]),
     (''output'',
        [(''type'', JStr ''string''),
         (''description'', JStr ''File path where the generated image should be saved (e.g., /path/to/image.png)'')]),
     (''model'',
        [(''type'', JStr ''string''),
         (''description'', JStr ''The model to use for image generation''),
         (''enum'', JArr [JStr ''gpt-image-1'', JStr ''dall-e-3'', JStr ''dall-e-2'']),
         (''default'', JStr ''dall-e-2'')]),
     (''n'',
        [(''type'', JStr ''integer''),
         (''description'', JStr ''Number of images to generate (1-10 for dall-e-2/gpt-image-1, only 1 for dall-e-3)''),
         (''minimum'', JNum 1),
         (''maximum'', JNum 10),
         (''default'', JNum 1)]),
     (''size'',
        [(''type'', JStr ''string''),
         (''description'', JStr ''Size: gpt-image-1(1024x1024,1536x1024,1024x1536,auto), dall-e-3(1024x1024,1792x1024,1024x1792), dall-e-2(256x256,512x512,1024x1024)'')]),
     (''quality'',
        [(''type'', JStr ''string''),
         (''description'', JStr ''Quality: gpt-image-1(low,medium,high,auto), dall-e-3(standard,hd)'')]),
     (''style'',
        [(''type'', JStr ''string''),
         (''description'', JStr ''Style for dall-e-3 only: vivid or natural''),
         (''enum'', JArr [JStr ''vivid'', JStr ''natural''])]),
     (''response_format'',
        [(''type'', JStr ''string''),
         (''description'', JStr ''Response format for dall-e-2/dall-e-3 only (not supported by gpt-image-1)''),
         (''enum'', JArr [JStr ''url'', JStr ''b64_json''])]),
     (''background'',
        [(''type'', JStr ''string''),
         (''description'', JStr ''Background transparency for gpt-image-1 only''),
         (''enum'', JArr [JStr ''transparent'', JStr ''opaque'', JStr ''auto''])]),
     (''moderation'',
        [(''type'', JStr ''string''),
         (''description'', JStr ''Content moderation level for gpt-image-1 only''),
         (''enum'', JArr [JStr ''low'', JStr ''auto''])]),
     (''output_compression'',
        [(''type'', JStr ''integer''),
         (''description'', JStr ''Compression level (0-100) for gpt-image-1 with webp/jpeg format''),
         (''minimum'', JNum 0),
         (''maximum'', JNum 100)]),
     (''output_format'',
        [(''type'', JStr ''string''),
         (''description'', JStr ''Output format for gpt-image-1 only''),
         (''enum'', JArr [JStr ''png'', JStr ''jpeg'', JStr ''webp''])]),
     (''partial_images'',
        [(''type'', JStr ''integer''),
         (''description'', JStr ''Number of partial images (0-3) for streaming with gpt-image-1''),
         (''minimum'', JNum 0),
         (''maximum'', JNum 3)]),
     (''stream'',
        [(''type'', JStr ''boolean''),
         (''description'', JStr ''Enable streaming mode for gpt-image-1 only'')]),
     (''user'',
        [(''type'', JStr ''string''),
         (''description'', JStr ''Unique identifier for your end-user (optional)'')])]"

definition generate_image_tool :: Tool where
  "generate_image_tool =
    \<lparr> name = ''generate_image'',
      description = ''Generate an image using OpenAI's image generation models (DALL-E or GPT-Image) and save it to a file'',
      inputSchema =
        \<lparr> schema_type = ''object'',
          properties = generate_image_properties,
          required = [''prompt'', ''output''] \<rparr> \<rparr>"

section \<open>The request handlers\<close>

text \<open>
  The provider, \<open>openai-provider.ts\<close>, is outside the handler: \<open>generateImage\<close> is a
  parameter, a function that returns a \<open>GenerationResult\<close> or throws. What it throws is
  read by the handler as an \<open>Error\<close>, an object with a \<open>message\<close>. The two members of a
  result are passed on to \<open>JSON.stringify\<close> unread, so they are plain values here.
\<close>

datatype js_error = Error (message: string)

record GenerationResult =
  savedFiles :: jsval
  response :: jsval

type_synonym generateImage_fn = "jsval \<Rightarrow> jsval \<Rightarrow> js_object \<Rightarrow> js_error + GenerationResult"

text \<open>
  One invocation of \<open>generateImage\<close>: the prompt, the output path and the options it was
  given. A handler takes the invocations made so far and returns them with its own added,
  so that what reaches the provider, and whether anything does, can be stated.
\<close>

type_synonym provider_call = "jsval \<times> jsval \<times> js_object"

definition call_options :: "provider_call \<Rightarrow> js_object" where
  "call_options c = snd (snd c)"

datatype ErrorCode = MethodNotFound | InvalidParams

text \<open>
  What leaves the handler as an exception: an \<open>McpError\<close> the handler throws itself, or
  the \<open>TypeError\<close> of reading a property of \<open>undefined\<close>. The protocol library
  answers the first with the error's own code and any other error with its internal-error
  code.
\<close>

datatype thrown = McpError ErrorCode string | TypeError string

datatype content_item = TextContent string

record CallToolResult =
  content :: "content_item list"
  isError :: "bool option"

text \<open>
  \<open>request.params\<close> of a \<open>tools/call\<close> request: the tool's name and the arguments.
  The \<open>arguments\<close> member is optional in the protocol, so it is an object, a mapping
  from strings to values, or \<open>undefined\<close> (\<open>None\<close>). The cast of lines 163 to 180 checks
  nothing: it gives the members types, but the handler tests them at run time, so a
  member is any value here.
\<close>

record CallToolRequest =
  params_name :: string
  params_arguments :: "(string \<rightharpoonup> jsval) option"

text \<open>The handler registered for \<open>ListToolsRequestSchema\<close> (lines 62 to 153).\<close>

definition ListToolsRequest_handler ::
  "provider_call list \<Rightarrow> provider_call list \<times> ListToolsResult" where
  "ListToolsRequest_handler calls = (calls, \<lparr> tools = [generate_image_tool] \<rparr>)"

text \<open>
  Lines 198 to 235: the model, defaulted by \<open>args.model || 'dall-e-2'\<close>, and the options
  object literal of the branch it selects. A property whose value is \<open>undefined\<close> is
  still a property of the literal.
\<close>

definition selected_model :: "(string \<rightharpoonup> jsval) \<Rightarrow> jsval" where
  "selected_model args = js_or (field args ''model'') (JStr ''dall-e-2'')"

definition generate_image_options :: "(string \<rightharpoonup> jsval) \<Rightarrow> js_object" where
  "generate_image_options args =
     (let model = selected_model args in
      if model = JStr ''gpt-image-1'' then
        [(''model'', JStr ''gpt-image-1''),
         (''n'', field args ''n''),
         (''size'', field args ''size''),
         (''quality'', field args ''quality''),
         (''background'', field args ''background''),
         (''moderation'', field args ''moderation''),
         (''output_compression'', field args ''output_compression''),
         (''output_format'', field args ''output_format''),
         (''partial_images'', field args ''partial_images''),
         (''stream'', field args ''stream''),
         (''user'', field args ''user'')]
      else if model = JStr ''dall-e-3'' then
        [(''model'', JStr ''dall-e-3''),
         (''n'', JNum 1),
         (''size'', field args ''size''),
         (''quality'', field args ''quality''),
         (''style'', field args ''style''),
         (''response_format'', field args ''response_format''),
         (''user'', field args ''user'')]
      else
        [(''model'', JStr ''dall-e-2''),
         (''n'', field args ''n''),
         (''size'', field args ''size''),
         (''response_format'', field args ''response_format''),
         (''user'', field args ''user'')])"

text \<open>
  The handler registered for \<open>CallToolRequestSchema\<close> (lines 155 to 269). A thrown
  \<open>McpError\<close> leaves the handler: it is the left of the outcome. When \<open>args\<close> is
  \<open>undefined\<close>, \<open>args.prompt\<close> of line 183, which is outside the \<open>try\<close>, throws a
  \<open>TypeError\<close> that leaves the handler too. Whatever \<open>generateImage\<close> throws is caught
  and becomes a result with \<open>isError: true\<close>; the result of a success has no
  \<open>isError\<close> member. \<open>JSON.stringify\<close> is a parameter. The lines the handler writes
  to standard error are left out.
\<close>

definition CallToolRequest_handler ::
  "(jsval \<Rightarrow> string) \<Rightarrow> generateImage_fn \<Rightarrow> provider_call list \<Rightarrow> CallToolRequest
     \<Rightarrow> provider_call list \<times> (thrown + CallToolResult)" where
  "CallToolRequest_handler stringify generateImage calls request =
     (if params_name request \<noteq> ''generate_image'' then
        (calls, Inl (McpError MethodNotFound (''Unknown tool: '' @ params_name request)))
      else
        case params_arguments request of
          None \<Rightarrow>
            (calls, Inl (TypeError ''Cannot read properties of undefined (reading 'prompt')''))
        | Some args \<Rightarrow>
            if \<not> truthy (field args ''prompt'') then
              (calls, Inl (McpError InvalidParams ''Prompt is required''))
            else if \<not> truthy (field args ''output'') then
              (calls, Inl (McpError InvalidParams ''Output file path is required''))
            else
              let options = generate_image_options args in
              (calls @ [(field args ''prompt'', field args ''output'', options)],
               case generateImage (field args ''prompt'') (field args ''output'') options of
                 Inr result \<Rightarrow>
                   Inr \<lparr> content =
                           [TextContent (stringify (JObj
                              [(''success'', JBool True),
                               (''savedFiles'', savedFiles result),
                               (''response'', response result)]))],
                         isError = None \<rparr>
               | Inl error \<Rightarrow>
                   Inr \<lparr> content =
                           [TextContent (''Error generating image: '' @
                              (if message error \<noteq> [] then message error
                               else ''Unknown error''))],
                         isError = Some True \<rparr>))"

section \<open>The provider's output files\<close>

text \<open>
  Modelled from the spec: the Image Provider Adapter, \<open>generateImage\<close> of
  \<open>openai-provider.ts\<close>, is not among the sources. The definitions of this section
  follow sections 3 and 4.3 of the specification: without streaming one request is
  issued and \<open>n\<close> images are expected; each is persisted to its computed path; when
  \<open>n > 1\<close> the path is the output path with a numeric suffix inserted before the
  extension (\<open>image.png\<close> gives \<open>image-1.png\<close>, \<open>image-2.png\<close>, and so on); the
  saved files are returned with an echo of the upstream response. The remote call fails
  with an \<open>UpstreamError\<close>, writing a file with a \<open>FilesystemError\<close>.
\<close>

text \<open>Modelled from the spec: a generated image is a URL or a base64 payload.\<close>

datatype GeneratedImage = Url string | Base64 string

text \<open>
  Modelled from the spec: \<open>SavedFile\<close>, the location on disk of one generated image
  and its index, here the image's position in the upstream's reply, from 1.
\<close>

record SavedFile =
  path :: string
  index :: nat

text \<open>Modelled from the spec: the two errors \<open>generateImage\<close> fails with.\<close>

datatype provider_error = UpstreamError string | FilesystemError string

text \<open>Modelled from the spec: the numeric suffix, a number in decimal.\<close>

fun decimal :: "nat \<Rightarrow> string" where
  "decimal n =
     (if n < 10 then [''0123456789'' ! n]
      else decimal (n div 10) @ [''0123456789'' ! (n mod 10)])"

declare decimal.simps [simp del]

text \<open>
  Modelled from the spec: the extension before which the suffix goes. It is the part of
  the file name from its last dot on; a file name without a dot has none.
\<close>

definition split_extension :: "string \<Rightarrow> string \<times> string" where
  "split_extension p =
     (let file = rev (takeWhile (\<lambda>c. c \<noteq> CHR ''/'') (rev p));
          ext = rev (takeWhile (\<lambda>c. c \<noteq> CHR ''.'') (rev file))
      in if CHR ''.'' \<in> set file
         then (take (length p - Suc (length ext)) p, CHR ''.'' # ext)
         else (p, []))"

text \<open>
  Modelled from the spec: the path of image \<open>i\<close> of several, a hyphen and the number
  inserted before the extension.
\<close>

definition numbered_path :: "string \<Rightarrow> nat \<Rightarrow> string" where
  "numbered_path p i = (case split_extension p of (stem, ext) \<Rightarrow> stem @ ''-'' @ decimal i @ ext)"

text \<open>
  Modelled from the spec: the saved file of image \<open>i\<close> of \<open>n\<close> requested; the path is
  numbered when \<open>n > 1\<close> and the output path itself otherwise.
\<close>

definition saved_file :: "string \<Rightarrow> nat \<Rightarrow> nat \<Rightarrow> SavedFile" where
  "saved_file outputPath n i =
     \<lparr> path = (if n > 1 then numbered_path outputPath i else outputPath), index = i \<rparr>"

text \<open>
  Modelled from the spec: \<open>generateImage\<close> without streaming (section 4.3, steps 3 and
  4). \<open>request\<close> is the upstream call for \<open>n\<close> images, \<open>persist\<close> obtains the bytes of
  one image (fetched from its URL or decoded from base64) and writes them to a path,
  telling whether that worked.
\<close>

definition generateImage_nonstreaming ::
  "(nat \<Rightarrow> provider_error + GeneratedImage list) \<Rightarrow> (string \<Rightarrow> GeneratedImage \<Rightarrow> bool)
     \<Rightarrow> string \<Rightarrow> nat \<Rightarrow> provider_error + (SavedFile list \<times> GeneratedImage list)" where
  "generateImage_nonstreaming request persist outputPath n =
     (case request n of
        Inl e \<Rightarrow> Inl e
      | Inr images \<Rightarrow>
          let files = zip (map (saved_file outputPath n) [1..<Suc (length images)]) images in
          if list_all (\<lambda>(f, image). persist (path f) image) files
          then Inr (map fst files, images)
          else Inl (FilesystemError outputPath))"

section \<open>Auxiliary facts\<close>

lemma field_restrict: "k \<in> S \<Longrightarrow> field (args |` S) k = field args k"
  by (simp add: field_def)

lemma keys_generate_image_options:
  "keys (generate_image_options args) =
     (if selected_model args = JStr ''gpt-image-1'' then
        [''model'', ''n'', ''size'', ''quality'', ''background'', ''moderation'',
         ''output_compression'', ''output_format'', ''partial_images'', ''stream'', ''user'']
      else if selected_model args = JStr ''dall-e-3'' then
        [''model'', ''n'', ''size'', ''quality'', ''style'', ''response_format'', ''user'']
      else [''model'', ''n'', ''size'', ''response_format'', ''user''])"
  by (simp add: generate_image_options_def keys_def Let_def)

lemma selected_model_restrict:
  "''model'' \<in> S \<Longrightarrow> selected_model (args |` S) = selected_model args"
  by (simp add: selected_model_def field_restrict)

lemma generate_image_options_restrict:
  assumes "set (keys (generate_image_options args)) \<subseteq> S"
  shows "generate_image_options (args |` S) = generate_image_options args"
proof -
  have "''model'' \<in> S"
    using assms by (auto simp add: keys_generate_image_options split: if_splits)
  then have same: "selected_model (args |` S) = selected_model args"
    by (rule selected_model_restrict)
  show ?thesis
    using assms unfolding generate_image_options_def Let_def same keys_def
    by (auto simp add: field_restrict)
qed

lemma handler_restrict:
  assumes "set (keys (generate_image_options args)) \<subseteq> S"
    and "''prompt'' \<in> S" and "''output'' \<in> S"
  shows "CallToolRequest_handler stringify generateImage calls
           \<lparr> params_name = tool, params_arguments = Some (args |` S) \<rparr>
         = CallToolRequest_handler stringify generateImage calls
           \<lparr> params_name = tool, params_arguments = Some args \<rparr>"
  using assms
  by (simp add: CallToolRequest_handler_def Let_def generate_image_options_restrict
        field_restrict)

text \<open>A request that passes the three checks invokes the provider once and returns a result.\<close>

lemma handler_calls:
  "params_name request = ''generate_image'' \<Longrightarrow>
   params_arguments request = Some args \<Longrightarrow>
   truthy (field args ''prompt'') \<Longrightarrow>
   truthy (field args ''output'') \<Longrightarrow>
   fst (CallToolRequest_handler stringify generateImage calls request) =
     calls @ [(field args ''prompt'', field args ''output'', generate_image_options args)]"
  by (simp add: CallToolRequest_handler_def Let_def)

lemma handler_calls_cases:
  "params_arguments request = Some args \<Longrightarrow>
   fst (CallToolRequest_handler stringify generateImage calls request) = calls \<or>
   fst (CallToolRequest_handler stringify generateImage calls request) =
     calls @ [(field args ''prompt'', field args ''output'', generate_image_options args)]"
  by (simp add: CallToolRequest_handler_def Let_def)

lemma handler_result:
  "params_name request = ''generate_image'' \<Longrightarrow>
   params_arguments request = Some args \<Longrightarrow>
   truthy (field args ''prompt'') \<Longrightarrow>
   truthy (field args ''output'') \<Longrightarrow>
   \<exists>result. snd (CallToolRequest_handler stringify generateImage calls request) = Inr result"
  by (simp add: CallToolRequest_handler_def Let_def split: sum.split)

text \<open>
  With an arguments object, a missing or empty prompt or output is refused with
  \<open>InvalidParams\<close> before the provider is invoked, the prompt checked first.
\<close>

lemma invalid_params_with_arguments:
  assumes "params_name request = ''generate_image''"
    and "params_arguments request = Some args"
    and "field args ''prompt'' \<in> {JUndefined, JStr []}
         \<or> field args ''output'' \<in> {JUndefined, JStr []}"
  shows "CallToolRequest_handler stringify generateImage calls request =
     (calls, Inl (McpError InvalidParams
        (if \<not> truthy (field args ''prompt'') then ''Prompt is required''
         else ''Output file path is required'')))"
  using assms by (auto simp add: CallToolRequest_handler_def Let_def)

lemma options_without_model:
  "args ''model'' = None \<Longrightarrow>
   map_of (generate_image_options args) ''model'' = Some (JStr ''dall-e-2'')"
  by (simp add: generate_image_options_def selected_model_def js_or_def field_def)

lemma options_of_bare_call:
  assumes "m \<in> {''gpt-image-1'', ''dall-e-3'', ''dall-e-2''}"
    and "args = [''prompt'' \<mapsto> JStr p, ''output'' \<mapsto> JStr out, ''model'' \<mapsto> JStr m]"
  shows "generate_image_options args =
           (if m = ''gpt-image-1'' then
              [(''model'', JStr ''gpt-image-1''), (''n'', JUndefined), (''size'', JUndefined),
               (''quality'', JUndefined), (''background'', JUndefined),
               (''moderation'', JUndefined), (''output_compression'', JUndefined),
               (''output_format'', JUndefined), (''partial_images'', JUndefined),
               (''stream'', JUndefined), (''user'', JUndefined)]
            else if m = ''dall-e-3'' then
              [(''model'', JStr ''dall-e-3''), (''n'', JNum 1), (''size'', JUndefined),
               (''quality'', JUndefined), (''style'', JUndefined),
               (''response_format'', JUndefined), (''user'', JUndefined)]
            else
              [(''model'', JStr ''dall-e-2''), (''n'', JUndefined), (''size'', JUndefined),
               (''response_format'', JUndefined), (''user'', JUndefined)])"
  using assms(1)
  by (auto simp add: assms(2) generate_image_options_def selected_model_def js_or_def
        field_def)

lemma numbered_paths_out_png:
  "numbered_path ''out.png'' (Suc 0) = ''out-1.png''"
  "numbered_path ''out.png'' (Suc (Suc 0)) = ''out-2.png''"
  "numbered_path ''out.png'' (Suc (Suc (Suc 0))) = ''out-3.png''"
  by (simp_all add: numbered_path_def split_extension_def decimal.simps)

lemma length_three: "length xs = 3 \<Longrightarrow> \<exists>a b c. xs = [a, b, c]"
  by (cases xs; simp; cases "tl xs"; simp; cases "tl (tl xs)"; auto)

section \<open>The claims\<close>

text \<open>
  C1: every \<open>tools/list\<close> returns exactly one tool, named \<open>generate_image\<close>, whose
  schema requires exactly \<open>prompt\<close> and \<open>output\<close>, and the operation leaves the
  state, the provider invocations made so far, as it was.
\<close>

theorem tools_list_one_tool:
  "map name (tools (snd (ListToolsRequest_handler calls))) = [''generate_image'']
   \<and> map (\<lambda>t. set (required (inputSchema t))) (tools (snd (ListToolsRequest_handler calls)))
       = [{''prompt'', ''output''}]
   \<and> fst (ListToolsRequest_handler calls) = calls"
  by (simp add: ListToolsRequest_handler_def generate_image_tool_def)

text \<open>
  C2: when the selected model is \<open>dall-e-3\<close>, the options built for the request carry
  \<open>n = 1\<close> whatever the caller's \<open>n\<close> is, every invocation of the provider the handler
  makes carries \<open>n = 1\<close>, and a request that passes validation invokes the provider
  with exactly those options.
\<close>

theorem dalle3_forces_single_image:
  assumes "params_arguments request = Some args"
    and "selected_model args = JStr ''dall-e-3''"
  shows "map_of (generate_image_options args) ''n'' = Some (JNum 1)
    \<and> (\<forall>c \<in> set (fst (CallToolRequest_handler stringify generateImage [] request)).
           map_of (call_options c) ''n'' = Some (JNum 1))
    \<and> (params_name request = ''generate_image'' \<and>
         truthy (field args ''prompt'') \<and> truthy (field args ''output'') \<longrightarrow>
         fst (CallToolRequest_handler stringify generateImage [] request) =
           [(field args ''prompt'', field args ''output'', generate_image_options args)])"
proof -
  have n1: "map_of (generate_image_options args) ''n'' = Some (JNum 1)"
    using assms(2) by (simp add: generate_image_options_def)
  have every: "\<forall>c \<in> set (fst (CallToolRequest_handler stringify generateImage [] request)).
           map_of (call_options c) ''n'' = Some (JNum 1)"
    using handler_calls_cases [OF assms(1), of stringify generateImage "[]"] n1
    by (auto simp add: call_options_def)
  have passed: "params_name request = ''generate_image'' \<and>
         truthy (field args ''prompt'') \<and> truthy (field args ''output'') \<longrightarrow>
         fst (CallToolRequest_handler stringify generateImage [] request) =
           [(field args ''prompt'', field args ''output'', generate_image_options args)]"
    using handler_calls [of request args stringify generateImage "[]"] assms(1) by simp
  from n1 every passed show ?thesis by blast
qed

theorem dalle3_forces_single_image_witness:
  "selected_model [''prompt'' \<mapsto> JStr ''a cat'', ''output'' \<mapsto> JStr ''cat.png'',
                   ''model'' \<mapsto> JStr ''dall-e-3'', ''n'' \<mapsto> JNum 5] = JStr ''dall-e-3''
   \<and> fst (CallToolRequest_handler (\<lambda>v. []) (\<lambda>p out opts. Inl (Error [])) []
        \<lparr> params_name = ''generate_image'',
          params_arguments = Some [''prompt'' \<mapsto> JStr ''a cat'', ''output'' \<mapsto> JStr ''cat.png'',
                                   ''model'' \<mapsto> JStr ''dall-e-3'', ''n'' \<mapsto> JNum 5] \<rparr>)
      = [(JStr ''a cat'', JStr ''cat.png'',
          [(''model'', JStr ''dall-e-3''), (''n'', JNum 1), (''size'', JUndefined),
           (''quality'', JUndefined), (''style'', JUndefined),
           (''response_format'', JUndefined), (''user'', JUndefined)])]"
proof -
  let ?args = "[''prompt'' \<mapsto> JStr ''a cat'', ''output'' \<mapsto> JStr ''cat.png'',
                ''model'' \<mapsto> JStr ''dall-e-3'', ''n'' \<mapsto> JNum 5]"
  have model: "selected_model ?args = JStr ''dall-e-3''"
    by (simp add: selected_model_def js_or_def field_def)
  have opts: "generate_image_options ?args =
          [(''model'', JStr ''dall-e-3''), (''n'', JNum 1), (''size'', JUndefined),
           (''quality'', JUndefined), (''style'', JUndefined),
           (''response_format'', JUndefined), (''user'', JUndefined)]"
    by (simp add: generate_image_options_def model) (simp add: field_def)
  from dalle3_forces_single_image
    [where request = "\<lparr> params_name = ''generate_image'', params_arguments = Some ?args \<rparr>"
       and args = ?args and stringify = "\<lambda>v. []"
       and generateImage = "\<lambda>p out opts. Inl (Error [])"]
    model opts
  show ?thesis by (simp add: field_def)
qed

text \<open>
  C3: when the tool is \<open>generate_image\<close>, prompt and output are non-empty (truthy) and
  \<open>generateImage\<close> throws, the handler returns a result, not an error of the protocol:
  \<open>isError\<close> is true and the text of its content contains the message of what was thrown.
\<close>

theorem provider_error_becomes_tool_result:
  assumes "params_name request = ''generate_image''"
    and "params_arguments request = Some args"
    and "truthy (field args ''prompt'')"
    and "truthy (field args ''output'')"
    and "generateImage (field args ''prompt'') (field args ''output'')
           (generate_image_options args) = Inl err"
  shows "snd (CallToolRequest_handler stringify generateImage calls request) =
           Inr \<lparr> content = [TextContent (''Error generating image: '' @
                    (if message err = [] then ''Unknown error'' else message err))],
                 isError = Some True \<rparr>
         \<and> (\<exists>before after.
               ''Error generating image: '' @
                 (if message err = [] then ''Unknown error'' else message err)
               = before @ message err @ after)"
proof -
  have "\<exists>after. ''Error generating image: '' @
          (if message err = [] then ''Unknown error'' else message err)
        = ''Error generating image: '' @ message err @ after"
    by simp
  then have "\<exists>before after. ''Error generating image: '' @
          (if message err = [] then ''Unknown error'' else message err)
        = before @ message err @ after"
    by blast
  with assms show ?thesis
    by (simp add: CallToolRequest_handler_def Let_def)
qed

theorem provider_error_becomes_tool_result_witness:
  "snd (CallToolRequest_handler (\<lambda>v. [])
          (\<lambda>p out opts. Inl (Error ''401 Incorrect API key provided'')) []
          \<lparr> params_name = ''generate_image'',
            params_arguments =
              Some [''prompt'' \<mapsto> JStr ''a cat'', ''output'' \<mapsto> JStr ''cat.png''] \<rparr>)
   = Inr \<lparr> content = [TextContent ''Error generating image: 401 Incorrect API key provided''],
           isError = Some True \<rparr>"
  using provider_error_becomes_tool_result
    [where request = "\<lparr> params_name = ''generate_image'',
            params_arguments =
              Some [''prompt'' \<mapsto> JStr ''a cat'', ''output'' \<mapsto> JStr ''cat.png''] \<rparr>"
       and args = "[''prompt'' \<mapsto> JStr ''a cat'', ''output'' \<mapsto> JStr ''cat.png'']"
       and generateImage = "\<lambda>p out opts. Inl (Error ''401 Incorrect API key provided'')"
       and err = "Error ''401 Incorrect API key provided''"
       and stringify = "\<lambda>v. []" and calls = "[]"]
  by (simp add: field_def)

text \<open>
  C4: the options object has exactly the properties of the selected model's variant, so
  none that belongs to another model only; and the properties of the arguments that are
  not copied are dropped without a trace: the handler does the same, provider invocation
  and outcome, on the arguments cut down to \<open>prompt\<close>, \<open>output\<close> and the copied
  properties.
\<close>

theorem options_carry_only_applicable_fields:
  "keys (generate_image_options args) =
     (if selected_model args = JStr ''gpt-image-1'' then
        [''model'', ''n'', ''size'', ''quality'', ''background'', ''moderation'',
         ''output_compression'', ''output_format'', ''partial_images'', ''stream'', ''user'']
      else if selected_model args = JStr ''dall-e-3'' then
        [''model'', ''n'', ''size'', ''quality'', ''style'', ''response_format'', ''user'']
      else [''model'', ''n'', ''size'', ''response_format'', ''user''])
   \<and> CallToolRequest_handler stringify generateImage calls
        \<lparr> params_name = tool,
          params_arguments = Some (args |`
            (set (keys (generate_image_options args)) \<union> {''prompt'', ''output''})) \<rparr>
       = CallToolRequest_handler stringify generateImage calls
        \<lparr> params_name = tool, params_arguments = Some args \<rparr>"
proof -
  have "CallToolRequest_handler stringify generateImage calls
        \<lparr> params_name = tool,
          params_arguments = Some (args |`
            (set (keys (generate_image_options args)) \<union> {''prompt'', ''output''})) \<rparr>
       = CallToolRequest_handler stringify generateImage calls
        \<lparr> params_name = tool, params_arguments = Some args \<rparr>"
    by (rule handler_restrict) auto
  then show ?thesis
    by (simp only: keys_generate_image_options simp_thms)
qed

theorem options_carry_only_applicable_fields_witness:
  "keys (generate_image_options
           [''prompt'' \<mapsto> JStr ''a cat'', ''output'' \<mapsto> JStr ''cat.png'',
            ''model'' \<mapsto> JStr ''gpt-image-1'', ''style'' \<mapsto> JStr ''vivid'',
            ''response_format'' \<mapsto> JStr ''url''])
     = [''model'', ''n'', ''size'', ''quality'', ''background'', ''moderation'',
        ''output_compression'', ''output_format'', ''partial_images'', ''stream'', ''user'']
   \<and> ''style'' \<notin> set (keys (generate_image_options
           [''prompt'' \<mapsto> JStr ''a cat'', ''output'' \<mapsto> JStr ''cat.png'',
            ''model'' \<mapsto> JStr ''gpt-image-1'', ''style'' \<mapsto> JStr ''vivid'',
            ''response_format'' \<mapsto> JStr ''url'']))
   \<and> ''response_format'' \<notin> set (keys (generate_image_options
           [''prompt'' \<mapsto> JStr ''a cat'', ''output'' \<mapsto> JStr ''cat.png'',
            ''model'' \<mapsto> JStr ''gpt-image-1'', ''style'' \<mapsto> JStr ''vivid'',
            ''response_format'' \<mapsto> JStr ''url'']))"
proof -
  let ?args = "[''prompt'' \<mapsto> JStr ''a cat'', ''output'' \<mapsto> JStr ''cat.png'',
                ''model'' \<mapsto> JStr ''gpt-image-1'', ''style'' \<mapsto> JStr ''vivid'',
                ''response_format'' \<mapsto> JStr ''url'']"
  have model: "selected_model ?args = JStr ''gpt-image-1''"
    by (simp add: selected_model_def js_or_def field_def)
  have "keys (generate_image_options ?args)
     = [''model'', ''n'', ''size'', ''quality'', ''background'', ''moderation'',
        ''output_compression'', ''output_format'', ''partial_images'', ''stream'', ''user'']"
    using options_carry_only_applicable_fields [where args = ?args]
    by (simp add: model)
  then show ?thesis by simp
qed

text \<open>
  C5: a call of \<open>generate_image\<close> whose prompt is missing is to be refused with
  \<open>InvalidParams\<close>. A request without an \<open>arguments\<close> member has no prompt, and the
  handler does not refuse it so: reading \<open>args.prompt\<close> throws a \<open>TypeError\<close>
  before the check of the prompt is made. The provider is not invoked.
\<close>

theorem absent_arguments_type_error:
  "CallToolRequest_handler stringify generateImage calls
     \<lparr> params_name = ''generate_image'', params_arguments = None \<rparr> =
     (calls, Inl (TypeError ''Cannot read properties of undefined (reading 'prompt')''))"
  by (simp add: CallToolRequest_handler_def)

text \<open>
  C6: a call of any tool other than \<open>generate_image\<close> throws \<open>MethodNotFound\<close>, and the
  provider is not invoked.
\<close>

theorem unknown_tool_method_not_found:
  "params_name request \<noteq> ''generate_image'' \<Longrightarrow>
   CallToolRequest_handler stringify generateImage calls request =
     (calls, Inl (McpError MethodNotFound (''Unknown tool: '' @ params_name request)))"
  by (simp add: CallToolRequest_handler_def)

theorem unknown_tool_method_not_found_witness:
  "CallToolRequest_handler (\<lambda>v. []) (\<lambda>p out opts. Inl (Error [])) []
     \<lparr> params_name = ''draw'', params_arguments = Some Map.empty \<rparr> =
     ([], Inl (McpError MethodNotFound ''Unknown tool: draw''))"
  using unknown_tool_method_not_found
    [where request = "\<lparr> params_name = ''draw'', params_arguments = Some Map.empty \<rparr>"
       and stringify = "\<lambda>v. []" and generateImage = "\<lambda>p out opts. Inl (Error [])"
       and calls = "[]"]
  by simp

text \<open>
  C7: without a \<open>model\<close> argument the options carry the model \<open>dall-e-2\<close>, and so does
  every invocation of the provider the handler makes for such arguments; and a call with
  only a non-empty prompt, a non-empty output and one of the three models builds that
  model's options, invokes the provider with them and returns a result, no parameter
  error.
\<close>

theorem absent_model_is_dalle2_and_models_route:
  "(absent ''model'' = None \<longrightarrow>
      map_of (generate_image_options absent) ''model'' = Some (JStr ''dall-e-2'')
      \<and> (\<forall>c \<in> set (fst (CallToolRequest_handler stringify generateImage []
                  \<lparr> params_name = tool, params_arguments = Some absent \<rparr>)).
            map_of (call_options c) ''model'' = Some (JStr ''dall-e-2'')))
   \<and> (m \<in> {''gpt-image-1'', ''dall-e-3'', ''dall-e-2''} \<and> p \<noteq> [] \<and> out \<noteq> [] \<and>
      args = [''prompt'' \<mapsto> JStr p, ''output'' \<mapsto> JStr out, ''model'' \<mapsto> JStr m] \<longrightarrow>
      generate_image_options args =
        (if m = ''gpt-image-1'' then
           [(''model'', JStr ''gpt-image-1''), (''n'', JUndefined), (''size'', JUndefined),
            (''quality'', JUndefined), (''background'', JUndefined),
            (''moderation'', JUndefined), (''output_compression'', JUndefined),
            (''output_format'', JUndefined), (''partial_images'', JUndefined),
            (''stream'', JUndefined), (''user'', JUndefined)]
         else if m = ''dall-e-3'' then
           [(''model'', JStr ''dall-e-3''), (''n'', JNum 1), (''size'', JUndefined),
            (''quality'', JUndefined), (''style'', JUndefined),
            (''response_format'', JUndefined), (''user'', JUndefined)]
         else
           [(''model'', JStr ''dall-e-2''), (''n'', JUndefined), (''size'', JUndefined),
            (''response_format'', JUndefined), (''user'', JUndefined)])
      \<and> fst (CallToolRequest_handler stringify generateImage calls
               \<lparr> params_name = ''generate_image'', params_arguments = Some args \<rparr>)
          = calls @ [(JStr p, JStr out, generate_image_options args)]
      \<and> (\<exists>result. snd (CallToolRequest_handler stringify generateImage calls
               \<lparr> params_name = ''generate_image'', params_arguments = Some args \<rparr>)
          = Inr result))"
proof -
  have first: "absent ''model'' = None \<longrightarrow>
      map_of (generate_image_options absent) ''model'' = Some (JStr ''dall-e-2'')
      \<and> (\<forall>c \<in> set (fst (CallToolRequest_handler stringify generateImage []
                  \<lparr> params_name = tool, params_arguments = Some absent \<rparr>)).
            map_of (call_options c) ''model'' = Some (JStr ''dall-e-2''))"
  proof
    assume "absent ''model'' = None"
    then have opts: "map_of (generate_image_options absent) ''model''
        = Some (JStr ''dall-e-2'')"
      by (rule options_without_model)
    have "\<forall>c \<in> set (fst (CallToolRequest_handler stringify generateImage []
                  \<lparr> params_name = tool, params_arguments = Some absent \<rparr>)).
            map_of (call_options c) ''model'' = Some (JStr ''dall-e-2'')"
      using handler_calls_cases
        [of "\<lparr> params_name = tool, params_arguments = Some absent \<rparr>" absent
            stringify generateImage "[]"] opts
      by (auto simp add: call_options_def)
    with opts show "map_of (generate_image_options absent) ''model''
        = Some (JStr ''dall-e-2'')
      \<and> (\<forall>c \<in> set (fst (CallToolRequest_handler stringify generateImage []
                  \<lparr> params_name = tool, params_arguments = Some absent \<rparr>)).
            map_of (call_options c) ''model'' = Some (JStr ''dall-e-2''))"
      by blast
  qed
  have second: "m \<in> {''gpt-image-1'', ''dall-e-3'', ''dall-e-2''} \<and> p \<noteq> [] \<and> out \<noteq> [] \<and>
      args = [''prompt'' \<mapsto> JStr p, ''output'' \<mapsto> JStr out, ''model'' \<mapsto> JStr m] \<longrightarrow>
      generate_image_options args =
        (if m = ''gpt-image-1'' then
           [(''model'', JStr ''gpt-image-1''), (''n'', JUndefined), (''size'', JUndefined),
            (''quality'', JUndefined), (''background'', JUndefined),
            (''moderation'', JUndefined), (''output_compression'', JUndefined),
            (''output_format'', JUndefined), (''partial_images'', JUndefined),
            (''stream'', JUndefined), (''user'', JUndefined)]
         else if m = ''dall-e-3'' then
           [(''model'', JStr ''dall-e-3''), (''n'', JNum 1), (''size'', JUndefined),
            (''quality'', JUndefined), (''style'', JUndefined),
            (''response_format'', JUndefined), (''user'', JUndefined)]
         else
           [(''model'', JStr ''dall-e-2''), (''n'', JUndefined), (''size'', JUndefined),
            (''response_format'', JUndefined), (''user'', JUndefined)])
      \<and> fst (CallToolRequest_handler stringify generateImage calls
               \<lparr> params_name = ''generate_image'', params_arguments = Some args \<rparr>)
          = calls @ [(JStr p, JStr out, generate_image_options args)]
      \<and> (\<exists>result. snd (CallToolRequest_handler stringify generateImage calls
               \<lparr> params_name = ''generate_image'', params_arguments = Some args \<rparr>)
          = Inr result)"
  proof (intro impI conjI; elim conjE)
    assume m: "m \<in> {''gpt-image-1'', ''dall-e-3'', ''dall-e-2''}"
      and args: "args = [''prompt'' \<mapsto> JStr p, ''output'' \<mapsto> JStr out, ''model'' \<mapsto> JStr m]"
    show "generate_image_options args =
        (if m = ''gpt-image-1'' then
           [(''model'', JStr ''gpt-image-1''), (''n'', JUndefined), (''size'', JUndefined),
            (''quality'', JUndefined), (''background'', JUndefined),
            (''moderation'', JUndefined), (''output_compression'', JUndefined),
            (''output_format'', JUndefined), (''partial_images'', JUndefined),
            (''stream'', JUndefined), (''user'', JUndefined)]
         else if m = ''dall-e-3'' then
           [(''model'', JStr ''dall-e-3''), (''n'', JNum 1), (''size'', JUndefined),
            (''quality'', JUndefined), (''style'', JUndefined),
            (''response_format'', JUndefined), (''user'', JUndefined)]
         else
           [(''model'', JStr ''dall-e-2''), (''n'', JUndefined), (''size'', JUndefined),
            (''response_format'', JUndefined), (''user'', JUndefined)])"
      using m args by (rule options_of_bare_call)
  next
    assume p: "p \<noteq> []" and out: "out \<noteq> []"
      and args: "args = [''prompt'' \<mapsto> JStr p, ''output'' \<mapsto> JStr out, ''model'' \<mapsto> JStr m]"
    have fp: "field args ''prompt'' = JStr p" and fo: "field args ''output'' = JStr out"
      by (simp_all add: args field_def)
    show "fst (CallToolRequest_handler stringify generateImage calls
               \<lparr> params_name = ''generate_image'', params_arguments = Some args \<rparr>)
          = calls @ [(JStr p, JStr out, generate_image_options args)]"
      using handler_calls
        [of "\<lparr> params_name = ''generate_image'', params_arguments = Some args \<rparr>" args
            stringify generateImage calls] p out
      by (simp add: fp fo)
  next
    assume p: "p \<noteq> []" and out: "out \<noteq> []"
      and args: "args = [''prompt'' \<mapsto> JStr p, ''output'' \<mapsto> JStr out, ''model'' \<mapsto> JStr m]"
    have fp: "field args ''prompt'' = JStr p" and fo: "field args ''output'' = JStr out"
      by (simp_all add: args field_def)
    show "\<exists>result. snd (CallToolRequest_handler stringify generateImage calls
               \<lparr> params_name = ''generate_image'', params_arguments = Some args \<rparr>)
          = Inr result"
      using handler_result
        [of "\<lparr> params_name = ''generate_image'', params_arguments = Some args \<rparr>" args
            stringify generateImage calls] p out
      by (simp add: fp fo)
  qed
  from first second show ?thesis by blast
qed

theorem absent_model_is_dalle2_and_models_route_witness:
  "map_of (generate_image_options
             [''prompt'' \<mapsto> JStr ''a cat'', ''output'' \<mapsto> JStr ''cat.png''])
          ''model'' = Some (JStr ''dall-e-2'')
   \<and> fst (CallToolRequest_handler (\<lambda>v. []) (\<lambda>p out opts. Inl (Error [])) []
        \<lparr> params_name = ''generate_image'',
          params_arguments = Some [''prompt'' \<mapsto> JStr ''a cat'', ''output'' \<mapsto> JStr ''cat.png'',
                                   ''model'' \<mapsto> JStr ''gpt-image-1''] \<rparr>)
      = [(JStr ''a cat'', JStr ''cat.png'',
          [(''model'', JStr ''gpt-image-1''), (''n'', JUndefined), (''size'', JUndefined),
           (''quality'', JUndefined), (''background'', JUndefined),
           (''moderation'', JUndefined), (''output_compression'', JUndefined),
           (''output_format'', JUndefined), (''partial_images'', JUndefined),
           (''stream'', JUndefined), (''user'', JUndefined)])]"
  using absent_model_is_dalle2_and_models_route
    [where absent = "[''prompt'' \<mapsto> JStr ''a cat'', ''output'' \<mapsto> JStr ''cat.png'']"
       and m = "''gpt-image-1''" and p = "''a cat''" and out = "''cat.png''"
       and args = "[''prompt'' \<mapsto> JStr ''a cat'', ''output'' \<mapsto> JStr ''cat.png'',
          ''model'' \<mapsto> JStr ''gpt-image-1'']"
       and stringify = "\<lambda>v. []" and generateImage = "\<lambda>p out opts. Inl (Error [])"
       and calls = "[]"]
  by simp

text \<open>
  C8: a call without streaming for \<open>n = 3\<close> images with the output path \<open>out.png\<close>
  that succeeds, the upstream having returned the three images, saves exactly three
  files, \<open>out-1.png\<close>, \<open>out-2.png\<close> and \<open>out-3.png\<close>, no two the same.
\<close>

theorem three_images_numbered_paths:
  assumes "request 3 = Inr images" and "length images = 3"
    and "generateImage_nonstreaming request persist ''out.png'' 3 = Inr (files, echo)"
  shows "map path files = [''out-1.png'', ''out-2.png'', ''out-3.png'']
         \<and> length files = 3 \<and> distinct (map path files)"
proof -
  obtain a b c where abc: "images = [a, b, c]"
    using length_three [OF assms(2)] by blast
  have "files = map (saved_file ''out.png'' 3) [Suc 0, Suc (Suc 0), Suc (Suc (Suc 0))]"
    using assms(1,3)
    by (auto simp add: generateImage_nonstreaming_def abc Let_def split: if_splits)
  then show ?thesis
    by (simp add: saved_file_def numbered_paths_out_png)
qed

theorem three_images_numbered_paths_witness:
  "length (replicate 3 (Base64 ''aGk='')) = 3
   \<and> generateImage_nonstreaming (\<lambda>n. Inr (replicate n (Base64 ''aGk=''))) (\<lambda>p image. True)
        ''out.png'' 3 =
      Inr ([\<lparr> path = ''out-1.png'', index = 1 \<rparr>, \<lparr> path = ''out-2.png'', index = 2 \<rparr>,
            \<lparr> path = ''out-3.png'', index = 3 \<rparr>], replicate 3 (Base64 ''aGk=''))
   \<and> map path [\<lparr> path = ''out-1.png'', index = 1 \<rparr>, \<lparr> path = ''out-2.png'', index = 2 \<rparr>,
            \<lparr> path = ''out-3.png'', index = 3 \<rparr>] = [''out-1.png'', ''out-2.png'', ''out-3.png'']
   \<and> distinct [''out-1.png'', ''out-2.png'', ''out-3.png'']"
proof -
  have run: "generateImage_nonstreaming (\<lambda>n. Inr (replicate n (Base64 ''aGk=''))) (\<lambda>p image. True)
        ''out.png'' 3 =
      Inr ([\<lparr> path = ''out-1.png'', index = 1 \<rparr>, \<lparr> path = ''out-2.png'', index = 2 \<rparr>,
            \<lparr> path = ''out-3.png'', index = 3 \<rparr>], replicate 3 (Base64 ''aGk=''))"
    by (simp add: generateImage_nonstreaming_def Let_def saved_file_def
          numbered_paths_out_png numeral_3_eq_3)
  have len: "length (replicate 3 (Base64 ''aGk='')) = 3" by simp
  have req: "(\<lambda>n. Inr (replicate n (Base64 ''aGk=''))) (3::nat)
      = (Inr (replicate 3 (Base64 ''aGk='')) :: provider_error + GeneratedImage list)" by simp
  from three_images_numbered_paths [OF req len run] run
  show ?thesis by simp
qed

text \<open>
  C9, as the code has it: when the credential is absent or the empty string, the process
  writes the error and exits with status 1; when it is a non-empty string that does not
  start with \<open>sk-\<close>, the process writes the warning and goes on to serve.
\<close>

theorem startup_credential_check:
  \<open>(env = None \<or> env = Some [] \<longrightarrow>
      startup_check env =
        ([''ERROR: OPENAI_API_KEY environment variable is required'',
          ''Please provide your OpenAI API key in the .env file or in the MCP settings configuration.''],
         Exit 1))
   \<and> (env = Some k \<and> k \<noteq> [] \<and> \<not> startsWith k ''sk-'' \<longrightarrow>
      startup_check env =
        ([''WARNING: The OPENAI_API_KEY does not appear to be in the expected format.'',
          ''OpenAI API keys typically start with "sk-".''],
         Serving))\<close>
  by (auto simp add: startup_check_def key_missing_def)

theorem startup_credential_check_witness:
  \<open>startup_check None =
        ([''ERROR: OPENAI_API_KEY environment variable is required'',
          ''Please provide your OpenAI API key in the .env file or in the MCP settings configuration.''],
         Exit 1)
   \<and> \<not> startsWith ''pk-test'' ''sk-''
   \<and> startup_check (Some ''pk-test'') =
        ([''WARNING: The OPENAI_API_KEY does not appear to be in the expected format.'',
          ''OpenAI API keys typically start with "sk-".''],
         Serving)\<close>
  using startup_credential_check [of None "''pk-test''"]
    startup_credential_check [of "Some ''pk-test''" "''pk-test''"]
  by (simp add: startsWith_def)

text \<open>
  The claim as it was stated fails for a credential that is present and empty: it does
  not start with \<open>sk-\<close>, and the process exits with the error.
\<close>

theorem startup_empty_key_exits:
  "\<not> startsWith [] ''sk-'' \<and>
   startup_check (Some []) =
     ([''ERROR: OPENAI_API_KEY environment variable is required'',
       ''Please provide your OpenAI API key in the .env file or in the MCP settings configuration.''],
      Exit 1)"
  by (simp add: startup_check_def key_missing_def startsWith_def)

text \<open>
  C10: a \<open>model\<close> argument that is a string other than \<open>gpt-image-1\<close> and \<open>dall-e-3\<close>,
  in the schema's enumeration or not, is not rejected: the options are the \<open>dall-e-2\<close>
  variant with the model \<open>dall-e-2\<close>, the provider is invoked with them and the
  handler returns a result.
\<close>

theorem unrecognised_model_routes_to_dalle2:
  assumes "params_name request = ''generate_image''"
    and "params_arguments request = Some args"
    and "truthy (field args ''prompt'')"
    and "truthy (field args ''output'')"
    and "args ''model'' = Some (JStr m)"
    and "m \<noteq> ''gpt-image-1''" and "m \<noteq> ''dall-e-3''"
  shows "generate_image_options args =
           [(''model'', JStr ''dall-e-2''),
            (''n'', field args ''n''),
            (''size'', field args ''size''),
            (''response_format'', field args ''response_format''),
            (''user'', field args ''user'')]
         \<and> fst (CallToolRequest_handler stringify generateImage calls request) =
             calls @ [(field args ''prompt'', field args ''output'',
                       generate_image_options args)]
         \<and> (\<exists>result. snd (CallToolRequest_handler stringify generateImage calls request)
               = Inr result)"
proof -
  have "selected_model args \<noteq> JStr ''gpt-image-1''"
    and "selected_model args \<noteq> JStr ''dall-e-3''"
    using assms(5-7) by (auto simp add: selected_model_def js_or_def field_def)
  then have "generate_image_options args =
           [(''model'', JStr ''dall-e-2''),
            (''n'', field args ''n''),
            (''size'', field args ''size''),
            (''response_format'', field args ''response_format''),
            (''user'', field args ''user'')]"
    by (simp add: generate_image_options_def)
  with handler_calls [OF assms(1-4), of stringify generateImage calls]
    handler_result [OF assms(1-4), of stringify generateImage calls]
  show ?thesis by blast
qed

theorem unrecognised_model_routes_to_dalle2_witness:
  "fst (CallToolRequest_handler (\<lambda>v. []) (\<lambda>p out opts. Inl (Error [])) []
        \<lparr> params_name = ''generate_image'',
          params_arguments = Some [''prompt'' \<mapsto> JStr ''a cat'', ''output'' \<mapsto> JStr ''cat.png'',
                                   ''model'' \<mapsto> JStr ''dall-e-4'', ''n'' \<mapsto> JNum 2] \<rparr>)
      = [(JStr ''a cat'', JStr ''cat.png'',
          [(''model'', JStr ''dall-e-2''), (''n'', JNum 2), (''size'', JUndefined),
           (''response_format'', JUndefined), (''user'', JUndefined)])]"
  using unrecognised_model_routes_to_dalle2
    [where request = "\<lparr> params_name = ''generate_image'',
          params_arguments = Some [''prompt'' \<mapsto> JStr ''a cat'', ''output'' \<mapsto> JStr ''cat.png'',
                                   ''model'' \<mapsto> JStr ''dall-e-4'', ''n'' \<mapsto> JNum 2] \<rparr>"
       and args = "[''prompt'' \<mapsto> JStr ''a cat'', ''output'' \<mapsto> JStr ''cat.png'',
                    ''model'' \<mapsto> JStr ''dall-e-4'', ''n'' \<mapsto> JNum 2]"
       and m = "''dall-e-4''" and stringify = "\<lambda>v. []"
       and generateImage = "\<lambda>p out opts. Inl (Error [])" and calls = "[]"]
  by (simp add: field_def)

end
